theory Spec2Isabelle
  imports Main "HOL-Library.AList"
begin

section \<open>LibVault backend: values, documents and errors\<close>

text \<open>
  The handlers of \<^verbatim>\<open>main.py\<close> exchange JSON-like values and Python dictionaries with
  their callers and with the document store. A dictionary keeps its keys in insertion
  order, so a document is an association list; a lookup is \<open>map_of\<close> and an assignment
  \<^verbatim>\<open>d[k] = v\<close> is \<open>AList.update\<close> (the key keeps its position, a new key goes last).

  A string is a list of characters read as code points below 256. A datetime is the
  number of microseconds since 1970-01-01T00:00:00 (naive UTC, the resolution of
  Python's \<^verbatim>\<open>datetime\<close>). \<open>VObjectId\<close> is the store-native identifier type.
\<close>

datatype val =
    VNone
  | VBool bool
  | VInt int
  | VStr string
  | VObjectId nat
  | VDateTime int
  | VList "val list"

type_synonym doc = "(string \<times> val) list"

text \<open>Every exception a modelled path can raise. All of them are Python \<^verbatim>\<open>Exception\<close>s.\<close>

datatype exn =
    StoreUnavailable
  | InvalidArgument
  | OperationFailure string
  | KeyError string
  | AttributeError string
  | TypeError
  | OverflowError
  | NotImplementedError
  | HTTPException nat

section \<open>Auth and security stubs\<close>

record LoginRequest =
  email :: string
  password :: string

record LoginResponse =
  token :: string
  user :: doc

text \<open>\<^verbatim>\<open>login\<close> (main.py, lines 87-91).\<close>

definition login :: "LoginRequest \<Rightarrow> LoginResponse" where
  "login payload =
     (let user = [(''email'', VStr (email payload)),
                  (''name'', VStr ''Demo User''),
                  (''role'', VStr ''admin'')]
      in \<lparr>token = ''demo.jwt.token'', user = user\<rparr>)"

record TwoFAVerifyRequest =
  code :: string

record TwoFAVerifyResponse =
  verified :: bool

text \<open>\<^verbatim>\<open>twofa_verify\<close> (main.py, lines 108-111).\<close>

definition twofa_verify :: "TwoFAVerifyRequest \<Rightarrow> TwoFAVerifyResponse" where
  "twofa_verify payload = (let ok = (code payload = ''000000'') in \<lparr>verified = ok\<rparr>)"

section \<open>Schema exposure\<close>

text \<open>
  \<^verbatim>\<open>get_schema_index\<close> (main.py, lines 28-40) walks the namespace of the imported
  \<^verbatim>\<open>schemas\<close> module. A module namespace is the ordered dictionary of its global
  names. An object of the namespace is a class (its name and the names of its proper
  ancestors), a function, or any other object.
\<close>

datatype pyobj = PyClass string "string list" | PyFunction | PyObject

type_synonym module = "(string \<times> pyobj) list"

text \<open>\<^verbatim>\<open>isinstance(obj, type)\<close>.\<close>

fun isinstance_type :: "pyobj \<Rightarrow> bool" where
  "isinstance_type (PyClass _ _) = True"
| "isinstance_type _ = False"

text \<open>\<^verbatim>\<open>issubclass(obj, base)\<close> raises TypeError when an argument is not a class.\<close>

fun issubclass :: "pyobj \<Rightarrow> pyobj \<Rightarrow> exn + bool" where
  "issubclass (PyClass n ancestors) (PyClass m _) = Inr (n = m \<or> m \<in> set ancestors)"
| "issubclass _ _ = Inl TypeError"

text \<open>
  The list comprehension of \<^verbatim>\<open>get_schema_index\<close>, over the items still to visit. The
  condition is evaluated left to right and short-circuits: \<^verbatim>\<open>s.BaseModel\<close> is looked up
  (AttributeError when the module has no such name) only for an object that is a class.
\<close>

fun collect_models :: "module \<Rightarrow> (string \<times> pyobj) list \<Rightarrow> exn + string list" where
  "collect_models s [] = Inr []"
| "collect_models s ((name, obj) # items) =
     (if isinstance_type obj then
        (case map_of s ''BaseModel'' of
           None \<Rightarrow> Inl (AttributeError ''BaseModel'')
         | Some base \<Rightarrow>
             (case issubclass obj base of
                Inl e \<Rightarrow> Inl e
              | Inr sub \<Rightarrow>
                  (case collect_models s items of
                     Inl e \<Rightarrow> Inl e
                   | Inr names \<Rightarrow>
                       Inr (if sub \<and> name \<notin> set [''BaseModel''] then name # names
                            else names))))
      else collect_models s items)"

record SchemaResponse =
  models :: "string list"

text \<open>Any exception of the body becomes \<^verbatim>\<open>HTTPException(status_code=500)\<close>.\<close>

definition get_schema_index :: "module \<Rightarrow> exn + SchemaResponse" where
  "get_schema_index s =
     (case collect_models s s of
        Inl e \<Rightarrow> Inl (HTTPException 500)
      | Inr names \<Rightarrow> Inr \<lparr>models = names\<rparr>)"

text \<open>
  The namespace of \<^verbatim>\<open>schemas.py\<close> after its import: the module attributes every module
  has, then the names bound by its three import statements (lines 9-11), then its eight
  class statements (lines 13-69), in the order of the file. \<^verbatim>\<open>Field\<close> is a function,
  \<^verbatim>\<open>Optional\<close> and \<^verbatim>\<open>List\<close> are typing forms (not classes), \<^verbatim>\<open>datetime\<close> is a class
  that does not derive from \<^verbatim>\<open>BaseModel\<close>.
\<close>

definition schemas :: module where
  "schemas =
     [(''__name__'', PyObject), (''__doc__'', PyObject), (''__package__'', PyObject),
      (''__loader__'', PyObject), (''__spec__'', PyObject), (''__file__'', PyObject),
      (''__cached__'', PyObject), (''__builtins__'', PyObject),
      (''BaseModel'', PyClass ''BaseModel'' [''object'']),
      (''Field'', PyFunction),
      (''Optional'', PyObject),
      (''List'', PyObject),
      (''datetime'', PyClass ''datetime'' [''date'', ''object'']),
      (''User'', PyClass ''User'' [''BaseModel'', ''object'']),
      (''Book'', PyClass ''Book'' [''BaseModel'', ''object'']),
      (''Transaction'', PyClass ''Transaction'' [''BaseModel'', ''object'']),
      (''Invoice'', PyClass ''Invoice'' [''BaseModel'', ''object'']),
      (''Subscription'', PyClass ''Subscription'' [''BaseModel'', ''object'']),
      (''ForumPost'', PyClass ''ForumPost'' [''BaseModel'', ''object'']),
      (''Club'', PyClass ''Club'' [''BaseModel'', ''object'']),
      (''Recommendation'', PyClass ''Recommendation'' [''BaseModel'', ''object''])]"

section \<open>Summaries\<close>

text \<open>
  Python's string operations used by \<^verbatim>\<open>ai_summary\<close>. \<open>is_space\<close> is \<^verbatim>\<open>str.isspace\<close>
  on the code points below 256: the characters \<^verbatim>\<open>str.strip()\<close> removes.
\<close>

definition is_space :: "char \<Rightarrow> bool" where
  "is_space c = (of_char c \<in> set [9, 10, 11, 12, 13, 28, 29, 30, 31, 32, 133, 160 :: nat])"

text \<open>\<^verbatim>\<open>s.replace(old, new)\<close> for one-character \<^verbatim>\<open>old\<close> and \<^verbatim>\<open>new\<close>.\<close>

definition replace_char :: "char \<Rightarrow> char \<Rightarrow> string \<Rightarrow> string" where
  "replace_char old new s = map (\<lambda>c. if c = old then new else c) s"

text \<open>
  \<^verbatim>\<open>s.split(sep)\<close> for a one-character separator: one more piece than there are
  separators, empty pieces kept.
\<close>

fun split_on :: "char \<Rightarrow> string \<Rightarrow> string list" where
  "split_on sep [] = [[]]"
| "split_on sep (c # cs) =
     (if c = sep then [] # split_on sep cs
      else (case split_on sep cs of [] \<Rightarrow> [[c]] | w # ws \<Rightarrow> (c # w) # ws))"

definition strip :: "string \<Rightarrow> string" where
  "strip s = rev (dropWhile is_space (rev (dropWhile is_space s)))"

text \<open>\<^verbatim>\<open>sep.join(xs)\<close>.\<close>

fun join :: "string \<Rightarrow> string list \<Rightarrow> string" where
  "join sep [] = []"
| "join sep [x] = x"
| "join sep (x # y # ys) = x @ sep @ join sep (y # ys)"

text \<open>The slice \<^verbatim>\<open>xs[:k]\<close>: a negative \<open>k\<close> counts from the end.\<close>

definition slice_to :: "'a list \<Rightarrow> int \<Rightarrow> 'a list" where
  "slice_to xs k = (if 0 \<le> k then take (nat k) xs else take (length xs - nat (- k)) xs)"

record SummaryRequest =
  summary_text :: string
  max_sentences :: int

record SummaryResponse =
  summary :: string
  sentences_used :: int

text \<open>
  \<^verbatim>\<open>ai_summary\<close> (main.py, lines 130-134). The field \<^verbatim>\<open>text\<close> of the request is
  \<open>summary_text\<close> here.
\<close>

definition ai_summary :: "SummaryRequest \<Rightarrow> SummaryResponse" where
  "ai_summary payload =
     (let sentences = map strip (filter (\<lambda>s. strip s \<noteq> [])
                        (split_on CHR ''.''
                           (replace_char CHR 0x0A CHR '' '' (summary_text payload))));
          summary = join ''. '' (slice_to sentences (max_sentences payload))
                    @ (if sentences \<noteq> [] then ''.'' else [])
      in \<lparr>summary = summary,
          sentences_used = min (int (length sentences)) (max_sentences payload)\<rparr>)"

text \<open>
  The number of non-empty sentences of a text, stated on the text itself rather than on
  the intermediate values of \<^verbatim>\<open>ai_summary\<close>: the pieces between its full stops that
  are not empty once stripped.
\<close>

definition count_sentences :: "string \<Rightarrow> nat" where
  "count_sentences t = length (filter (\<lambda>s. strip s \<noteq> []) (split_on CHR ''.'' t))"

section \<open>The document store\<close>

text \<open>
  \<^verbatim>\<open>main.py\<close> imports \<^verbatim>\<open>db\<close>, \<^verbatim>\<open>create_document\<close> and \<^verbatim>\<open>get_documents\<close> from a
  \<^verbatim>\<open>database\<close> module that is not among the sources. The handle \<^verbatim>\<open>db\<close> is either
  \<^verbatim>\<open>None\<close> (no store configured) or a database object of the driver, hence a
  \<open>database option\<close>.
\<close>

text \<open>
  Modelled from the spec: the state of the backing store behind \<^verbatim>\<open>db\<close> (spec sections 3
  and 4.2). Each named collection holds its records in creation order; a collection never
  written to is empty. \<open>reachable\<close> tells whether the store can be reached, and
  \<open>next_id\<close> is the source of fresh identifiers.
\<close>

record database =
  reachable :: bool
  colls :: "string \<Rightarrow> doc list"
  next_id :: nat

text \<open>
  The two query documents \<^verbatim>\<open>ai_search\<close> hands to the driver:
  \<^verbatim>\<open>{"$text": {"$search": q}}\<close> and \<^verbatim>\<open>{field: {"$regex": q, "$options": opts}}\<close>.
\<close>

datatype mongo_query = TextSearch string | FieldRegex string string string

text \<open>
  What the handlers take from outside the repository, as parameters:
  \<^item> \<open>py_str\<close>: Python's builtin \<^verbatim>\<open>str\<close> on a stored value;
  \<^item> \<open>db_bool\<close>: the truth value \<^verbatim>\<open>bool(db)\<close> of a database object, which depends
    on the driver: an object without a truth-value method is true, while the database
    objects of recent drivers raise NotImplementedError on truth-value testing;
  \<^item> \<open>coll_find\<close>: the driver's \<^verbatim>\<open>db[collection].find(query)\<close> read to the end by
    \<^verbatim>\<open>list\<close>, which yields every matching record or raises (a query the server does
    not support, a malformed pattern, a lost connection);
  \<^item> \<open>utcnow\<close>: the value \<^verbatim>\<open>datetime.utcnow()\<close> returns during the request.
\<close>

record env =
  py_str :: "val \<Rightarrow> string"
  db_bool :: "database \<Rightarrow> exn + bool"
  coll_find :: "database \<Rightarrow> string \<Rightarrow> mongo_query \<Rightarrow> exn + doc list"
  utcnow :: int

text \<open>
  The truth value of the handle, as the test \<^verbatim>\<open>if db\<close> takes it: \<^verbatim>\<open>None\<close> is
  false, and a database object answers through the driver, or raises.
\<close>

definition truthy :: "env \<Rightarrow> database option \<Rightarrow> exn + bool" where
  "truthy env db = (case db of None \<Rightarrow> Inr False | Some d \<Rightarrow> db_bool env d)"

text \<open>
  The conditional expression \<^verbatim>\<open>body if db else []\<close> of the handlers: the test is
  evaluated first, and what it raises is raised by the whole expression.
\<close>

definition if_db :: "env \<Rightarrow> database option \<Rightarrow> exn + doc list \<Rightarrow> exn + doc list" where
  "if_db env db body =
     (case truthy env db of
        Inl e \<Rightarrow> Inl e
      | Inr b \<Rightarrow> if b then body else Inr [])"

text \<open>
  \<^verbatim>\<open>list(db[collection].find(query))\<close>: subscripting \<^verbatim>\<open>None\<close> raises TypeError, a
  database object hands the query to the driver.
\<close>

definition db_find ::
    "env \<Rightarrow> database option \<Rightarrow> string \<Rightarrow> mongo_query \<Rightarrow> exn + doc list" where
  "db_find env db collection q =
     (case db of
        None \<Rightarrow> Inl TypeError
      | Some d \<Rightarrow> coll_find env d collection q)"

text \<open>
  The driver's \<^verbatim>\<open>cursor.limit(n)\<close> on the records a query yields: at most \<open>n\<close> of
  them, and all of them when \<open>n\<close> is 0.
\<close>

definition cursor_limit :: "nat \<Rightarrow> doc list \<Rightarrow> doc list" where
  "cursor_limit n docs = (if n = 0 then docs else take n docs)"

text \<open>
  Modelled from the spec: the filter of \<^verbatim>\<open>get_documents\<close> (spec section 4.2), a
  conjunction of field-equality constraints. A record that lacks a field of the filter
  is excluded.
\<close>

definition matches :: "doc \<Rightarrow> doc \<Rightarrow> bool" where
  "matches filt r = list_all (\<lambda>(k, v). map_of r k = Some v) filt"

text \<open>
  Modelled from the spec: \<^verbatim>\<open>get_documents(collection, filter, limit)\<close> of the absent
  \<^verbatim>\<open>database\<close> module (spec section 4.2). It returns the records of the named
  collection that match all constraints of the filter, at most \<open>limit\<close> of them (the
  limit is never negative, and 0 means no results); an empty sequence when nothing
  matches; it fails with \<open>StoreUnavailable\<close> when there is no store or the store cannot
  be reached.
\<close>

definition get_documents ::
    "database option \<Rightarrow> string \<Rightarrow> doc \<Rightarrow> nat \<Rightarrow> exn + doc list" where
  "get_documents db collection filt limit =
     (case db of
        None \<Rightarrow> Inl StoreUnavailable
      | Some d \<Rightarrow>
          if \<not> reachable d then Inl StoreUnavailable
          else Inr (take limit (filter (matches filt) (colls d collection))))"

text \<open>
  Modelled from the spec: \<^verbatim>\<open>create_document(collection, data)\<close> of the absent
  \<^verbatim>\<open>database\<close> module (spec section 4.2). It fails with \<open>InvalidArgument\<close> on an empty
  collection name and with \<open>StoreUnavailable\<close> when there is no store or the store cannot
  be reached. Otherwise it persists the supplied fields as one new record of the named
  collection under a fresh store-native identifier, and returns that identifier as a
  string together with the new state of the store.
\<close>

definition create_document ::
    "env \<Rightarrow> database option \<Rightarrow> string \<Rightarrow> doc \<Rightarrow> exn + (string \<times> database)" where
  "create_document env db collection data =
     (if collection = [] then Inl InvalidArgument
      else case db of
        None \<Rightarrow> Inl StoreUnavailable
      | Some d \<Rightarrow>
          if \<not> reachable d then Inl StoreUnavailable
          else
            (let ident = VObjectId (next_id d);
                 stored = AList.update ''_id'' ident data
             in Inr (py_str env ident,
                     d\<lparr>colls := (colls d)(collection := colls d collection @ [stored]),
                       next_id := Suc (next_id d)\<rparr>)))"

section \<open>Handlers over the store\<close>

text \<open>
  The dictionary display \<^verbatim>\<open>{**d, **e}\<close>: the entries of \<open>e\<close> are assigned into \<open>d\<close> in
  order.
\<close>

definition dict_merge :: "doc \<Rightarrow> doc \<Rightarrow> doc" where
  "dict_merge d e = foldl (\<lambda>acc (k, v). AList.update k v acc) d e"

text \<open>
  The loop body \<^verbatim>\<open>if "_id" in r: r["_id"] = str(r["_id"])\<close> of \<^verbatim>\<open>ai_recommend\<close>,
  \<^verbatim>\<open>list_invoices\<close> and \<^verbatim>\<open>list_forum_posts\<close>.
\<close>

definition stringify_id :: "env \<Rightarrow> doc \<Rightarrow> doc" where
  "stringify_id env r =
     (case map_of r ''_id'' of
        None \<Rightarrow> r
      | Some v \<Rightarrow> AList.update ''_id'' (VStr (py_str env v)) r)"

text \<open>
  The loop \<^verbatim>\<open>for r in results: r["_id"] = str(r["_id"])\<close> of \<^verbatim>\<open>ai_search\<close>, which has
  no membership test: the subscript raises KeyError on a record without \<^verbatim>\<open>_id\<close>.
\<close>

fun stringify_ids :: "env \<Rightarrow> doc list \<Rightarrow> exn + doc list" where
  "stringify_ids env [] = Inr []"
| "stringify_ids env (r # rs) =
     (case map_of r ''_id'' of
        None \<Rightarrow> Inl (KeyError ''_id'')
      | Some v \<Rightarrow>
          (case stringify_ids env rs of
             Inl e \<Rightarrow> Inl e
           | Inr rs' \<Rightarrow> Inr (AList.update ''_id'' (VStr (py_str env v)) r # rs')))"

record AISearchRequest =
  query :: string

record AISearchResponse =
  query :: string
  results :: "doc list"

text \<open>
  \<^verbatim>\<open>ai_search\<close> (main.py, lines 139-150). \<open>attempt\<close> is the body of the \<^verbatim>\<open>try\<close>;
  \<^verbatim>\<open>except Exception\<close> catches whatever it raises (an error of the test \<^verbatim>\<open>if db\<close>
  as well as one of the query) and evaluates the second conditional expression, with the
  regex query on the title, outside any handler.
\<close>

definition ai_search ::
    "env \<Rightarrow> database option \<Rightarrow> AISearchRequest \<Rightarrow> exn + AISearchResponse" where
  "ai_search env db payload =
     (let q = AISearchRequest.query payload;
          attempt =
            if_db env db
              (map_sum id (cursor_limit 10) (db_find env db ''book'' (TextSearch q)));
          found =
            (case attempt of
               Inr rs \<Rightarrow> Inr rs
             | Inl _ \<Rightarrow>
                 if_db env db
                   (map_sum id (cursor_limit 10)
                      (db_find env db ''book'' (FieldRegex ''title'' q ''i''))))
      in case found of
           Inl e \<Rightarrow> Inl e
         | Inr rs \<Rightarrow>
             (case stringify_ids env rs of
                Inl e \<Rightarrow> Inl e
              | Inr rs' \<Rightarrow> Inr \<lparr>query = q, results = rs'\<rparr>))"

record RecommendRequest =
  user_id :: string

record RecommendResponse =
  user_id :: string
  recommendations :: "doc list"

text \<open>\<^verbatim>\<open>ai_recommend\<close> (main.py, lines 155-162).\<close>

definition ai_recommend ::
    "env \<Rightarrow> database option \<Rightarrow> RecommendRequest \<Rightarrow> exn + RecommendResponse" where
  "ai_recommend env db payload =
     (case if_db env db (get_documents db ''book'' [(''available'', VBool True)] 5) of
        Inl e \<Rightarrow> Inl e
      | Inr items \<Rightarrow>
          Inr \<lparr>RecommendResponse.user_id = RecommendRequest.user_id payload,
               recommendations = map (stringify_id env) items\<rparr>)"

text \<open>
  Datetimes: \<^verbatim>\<open>datetime.min\<close> and \<^verbatim>\<open>datetime.max\<close> in microseconds since the epoch,
  \<^verbatim>\<open>timedelta(days=n)\<close>, and the sum of a datetime and a timedelta, which raises
  OverflowError outside the years 1 to 9999.
\<close>

definition datetime_min :: int where
  "datetime_min = - 62135596800000000"

definition datetime_max :: int where
  "datetime_max = 253402300799999999"

definition timedelta_days :: "int \<Rightarrow> int" where
  "timedelta_days n = n * 86400000000"

definition datetime_add :: "int \<Rightarrow> int \<Rightarrow> exn + int" where
  "datetime_add t delta =
     (if datetime_min \<le> t + delta \<and> t + delta \<le> datetime_max then Inr (t + delta)
      else Inl OverflowError)"

record SubscriptionRequest =
  user_id :: string
  plan :: string

text \<open>
  \<^verbatim>\<open>create_subscription\<close> (main.py, lines 170-179). The result is the response and the
  store after the call.
\<close>

definition create_subscription ::
    "env \<Rightarrow> database option \<Rightarrow> SubscriptionRequest \<Rightarrow> exn + (doc \<times> database)" where
  "create_subscription env db payload =
     (case datetime_add (utcnow env) (timedelta_days 30) of
        Inl e \<Rightarrow> Inl e
      | Inr renews \<Rightarrow>
          (let sub = [(''user_id'', VStr (SubscriptionRequest.user_id payload)),
                      (''plan'', VStr (plan payload)),
                      (''status'', VStr ''active''),
                      (''renews_at'', VDateTime renews)]
           in case create_document env db ''subscription'' sub of
                Inl e \<Rightarrow> Inl e
              | Inr (sub_id, db') \<Rightarrow> Inr (dict_merge [(''id'', VStr sub_id)] sub, db')))"

record InvoicesResponse =
  invoices :: "doc list"

text \<open>
  \<^verbatim>\<open>list_invoices\<close> (main.py, lines 181-188). The optional parameter \<^verbatim>\<open>user_id\<close> is
  \<open>user_id_arg\<close>; an empty string is false, like \<^verbatim>\<open>None\<close>.
\<close>

definition list_invoices ::
    "env \<Rightarrow> database option \<Rightarrow> string option \<Rightarrow> exn + InvoicesResponse" where
  "list_invoices env db user_id_arg =
     (let filt = (case user_id_arg of
                    Some u \<Rightarrow> if u \<noteq> [] then [(''user_id'', VStr u)] else []
                  | None \<Rightarrow> [])
      in case if_db env db (get_documents db ''invoice'' filt 50) of
           Inl e \<Rightarrow> Inl e
         | Inr docs \<Rightarrow> Inr \<lparr>invoices = map (stringify_id env) docs\<rparr>)"

record ForumPostIn =
  user_id :: string
  title :: string
  content :: string
  tags :: "string list"

text \<open>\<^verbatim>\<open>payload.dict()\<close> of a \<^verbatim>\<open>ForumPostIn\<close>: its fields in declaration order.\<close>

definition forum_post_dict :: "ForumPostIn \<Rightarrow> doc" where
  "forum_post_dict payload =
     [(''user_id'', VStr (ForumPostIn.user_id payload)),
      (''title'', VStr (title payload)),
      (''content'', VStr (content payload)),
      (''tags'', VList (map VStr (tags payload)))]"

text \<open>\<^verbatim>\<open>create_forum_post\<close> (main.py, lines 198-201).\<close>

definition create_forum_post ::
    "env \<Rightarrow> database option \<Rightarrow> ForumPostIn \<Rightarrow> exn + (doc \<times> database)" where
  "create_forum_post env db payload =
     (case create_document env db ''forumpost'' (forum_post_dict payload) of
        Inl e \<Rightarrow> Inl e
      | Inr (post_id, db') \<Rightarrow>
          Inr (dict_merge [(''id'', VStr post_id)] (forum_post_dict payload), db'))"

record PostsResponse =
  posts :: "doc list"

text \<open>\<^verbatim>\<open>list_forum_posts\<close> (main.py, lines 203-210).\<close>

definition list_forum_posts ::
    "env \<Rightarrow> database option \<Rightarrow> string option \<Rightarrow> exn + PostsResponse" where
  "list_forum_posts env db tag =
     (let filt = (case tag of
                    Some t \<Rightarrow> if t \<noteq> [] then [(''tags'', VStr t)] else []
                  | None \<Rightarrow> [])
      in case if_db env db (get_documents db ''forumpost'' filt 50) of
           Inl e \<Rightarrow> Inl e
         | Inr ps \<Rightarrow> Inr \<lparr>posts = map (stringify_id env) ps\<rparr>)"

section \<open>The naming convention of collections\<close>

text \<open>
  \<^verbatim>\<open>str.lower()\<close> on code points below 256: the letters A to Z and the accented capitals
  192 to 222 (but the multiplication sign 215) move up by 32.
\<close>

definition lower_char :: "char \<Rightarrow> char" where
  "lower_char c =
     (let n = (of_char c :: nat)
      in if (65 \<le> n \<and> n \<le> 90) \<or> (192 \<le> n \<and> n \<le> 222 \<and> n \<noteq> 215)
         then char_of (n + 32) else c)"

definition lower :: "string \<Rightarrow> string" where
  "lower s = map lower_char s"

text \<open>
  The convention stated in the docstring of \<^verbatim>\<open>schemas.py\<close> (lines 4-5) and in the spec:
  the collection of a schema class is the lowercase of the class name.
\<close>

definition collection_name :: "string \<Rightarrow> string" where
  "collection_name cls = lower cls"

section \<open>A sample store and sample requests\<close>

text \<open>
  Concrete inputs on which the theorems below are exercised: a stand-in for \<^verbatim>\<open>str\<close>, a
  driver whose database objects are true and whose server has no text index (every
  \<^verbatim>\<open>$text\<close> query raises, a regex query returns the collection), a second driver
  whose text queries succeed, and a reachable store with eleven books, one invoice and
  one forum post.
\<close>

definition demo_str :: "val \<Rightarrow> string" where
  "demo_str v = (case v of VStr s \<Rightarrow> s | VObjectId n \<Rightarrow> replicate n CHR ''f'' | _ \<Rightarrow> ''None'')"

definition demo_find :: "database \<Rightarrow> string \<Rightarrow> mongo_query \<Rightarrow> exn + doc list" where
  "demo_find d c q =
     (case q of
        TextSearch _ \<Rightarrow> Inl (OperationFailure ''text index required for $text query'')
      | FieldRegex _ _ _ \<Rightarrow> Inr (colls d c))"

definition demo_env :: env where
  "demo_env = \<lparr>py_str = demo_str, db_bool = (\<lambda>d. Inr True), coll_find = demo_find,
                 utcnow = 1700000000000000\<rparr>"

definition demo_env_text :: env where
  "demo_env_text = demo_env\<lparr>coll_find := (\<lambda>d c q. Inr (colls d c))\<rparr>"

definition demo_book :: "nat \<Rightarrow> doc" where
  "demo_book i = [(''_id'', VObjectId i), (''title'', VStr ''Dune''), (''available'', VBool True)]"

definition demo_db :: database where
  "demo_db =
     \<lparr>reachable = True,
      colls = (\<lambda>c. if c = ''book'' then map demo_book [1, 2, 3, 4, 5, 6, 7, 8, 9, 10, 11]
                   else if c = ''invoice'' then [[(''_id'', VObjectId 20), (''user_id'', VStr ''u1'')]]
                   else if c = ''forumpost'' then [[(''_id'', VObjectId 30), (''tags'', VStr ''sf'')]]
                   else []),
      next_id = 40\<rparr>"

definition demo_post :: ForumPostIn where
  "demo_post = \<lparr>ForumPostIn.user_id = ''u1'', title = ''Hello'', content = ''First post'',
                tags = [''sf'', ''news'']\<rparr>"

definition demo_subscription :: SubscriptionRequest where
  "demo_subscription = \<lparr>SubscriptionRequest.user_id = ''u1'', plan = ''pro''\<rparr>"

section \<open>Theorems\<close>

text \<open>
  C4. For every login request, whatever the email and the password, login returns the
  fixed token "demo.jwt.token" and a user object with exactly three fields: the email of
  the request, the name "Demo User" and the role "admin". The function is total: there is
  no failing branch.
\<close>

theorem login_always_succeeds:
  "token (login payload) = ''demo.jwt.token'' \<and>
   map_of (user (login payload)) ''email'' = Some (VStr (email payload)) \<and>
   map_of (user (login payload)) ''name'' = Some (VStr ''Demo User'') \<and>
   map_of (user (login payload)) ''role'' = Some (VStr ''admin'') \<and>
   map fst (user (login payload)) = [''email'', ''name'', ''role'']"
  by (simp add: login_def)

text \<open>
  C10. The 2FA verification returns verified = true if and only if the submitted code is
  exactly the string "000000". The function is total, so no code value makes it fail.
\<close>

theorem twofa_verify_iff:
  "verified (twofa_verify payload) \<longleftrightarrow> code payload = ''000000''"
  by (simp add: twofa_verify_def)

text \<open>
  C5. On the namespace of the schemas module as written, the schema endpoint does not
  fail and returns exactly the eight declared model names, in the order of the file:
  BaseModel itself is left out, and so are Field, Optional, List and datetime.
\<close>

theorem get_schema_index_models:
  "get_schema_index schemas =
     Inr \<lparr>models = [''User'', ''Book'', ''Transaction'', ''Invoice'', ''Subscription'',
                     ''ForumPost'', ''Club'', ''Recommendation'']\<rparr>"
  by (simp add: get_schema_index_def schemas_def)

subsection \<open>Sentences of a summary\<close>

lemma split_on_nonempty: "split_on sep s \<noteq> []"
  by (induction s) (auto split: list.splits)

lemma split_on_map:
  assumes "\<And>c. (f c = sep) = (c = sep)"
  shows "split_on sep (map f s) = map (map f) (split_on sep s)"
  using assms by (induction s) (auto split: list.splits simp: split_on_nonempty)

lemma dropWhile_all_iff:
  "(\<forall>x \<in> set (dropWhile P s). P x) \<longleftrightarrow> (\<forall>x \<in> set s. P x)"
  by (induction s) auto

lemma strip_empty_iff: "strip s = [] \<longleftrightarrow> (\<forall>c \<in> set s. is_space c)"
  by (simp add: strip_def dropWhile_all_iff)

lemma is_space_replace: "is_space (if c = CHR 0x0A then CHR '' '' else c) = is_space c"
  by (simp add: is_space_def)

text \<open>Turning newlines into spaces never changes whether a piece is blank.\<close>

lemma strip_replace_empty:
  "strip (replace_char CHR 0x0A CHR '' '' s) = [] \<longleftrightarrow> strip s = []"
  unfolding strip_empty_iff replace_char_def
  by (induction s) (simp_all add: is_space_replace)

lemma count_replace:
  "length (filter (\<lambda>s. strip s \<noteq> [])
     (split_on CHR ''.'' (replace_char CHR 0x0A CHR '' '' t))) = count_sentences t"
proof -
  have "split_on CHR ''.'' (replace_char CHR 0x0A CHR '' '' t)
        = map (replace_char CHR 0x0A CHR '' '') (split_on CHR ''.'' t)"
    unfolding replace_char_def by (rule split_on_map) auto
  then show ?thesis
    by (simp add: count_sentences_def filter_map o_def strip_replace_empty)
qed

text \<open>
  C9. For every summary request with max_sentences >= 0, sentences_used is the minimum
  of max_sentences and the number of non-empty sentences of the text (the pieces between
  full stops that are not blank). When the text has at least one such sentence and
  max_sentences is 0, the summary is the single character ".".
\<close>

theorem ai_summary_sentences_used:
  assumes "0 \<le> max_sentences payload"
  shows "sentences_used (ai_summary payload)
           = min (max_sentences payload) (int (count_sentences (summary_text payload)))
         \<and> (1 \<le> count_sentences (summary_text payload) \<and> max_sentences payload = 0
              \<longrightarrow> summary (ai_summary payload) = ''.'')"
proof -
  let ?ss = "filter (\<lambda>s. strip s \<noteq> [])
               (split_on CHR ''.'' (replace_char CHR 0x0A CHR '' '' (summary_text payload)))"
  have len: "length ?ss = count_sentences (summary_text payload)"
    by (rule count_replace)
  have used: "sentences_used (ai_summary payload)
                = min (int (length ?ss)) (max_sentences payload)"
    by (simp add: ai_summary_def Let_def)
  have zero: "summary (ai_summary payload) = ''.''"
    if "1 \<le> count_sentences (summary_text payload)" "max_sentences payload = 0"
  proof -
    from that(1) len have "?ss \<noteq> []" by auto
    with that(2) show ?thesis
      by (simp add: ai_summary_def Let_def slice_to_def)
  qed
  from used len zero show ?thesis by (simp add: min.commute)
qed

theorem ai_summary_sentences_used_witness:
  "0 \<le> max_sentences \<lparr>summary_text = ''One. Two. '', max_sentences = 0\<rparr>
   \<and> 1 \<le> count_sentences (summary_text \<lparr>summary_text = ''One. Two. '', max_sentences = 0\<rparr>)
   \<and> max_sentences \<lparr>summary_text = ''One. Two. '', max_sentences = 0\<rparr> = 0
   \<and> count_sentences ''One. Two. '' = 2
   \<and> sentences_used (ai_summary \<lparr>summary_text = ''One. Two. '', max_sentences = 0\<rparr>) = 0
   \<and> summary (ai_summary \<lparr>summary_text = ''One. Two. '', max_sentences = 0\<rparr>) = ''.''"
  using ai_summary_sentences_used [of "\<lparr>summary_text = ''One. Two. '', max_sentences = 0\<rparr>"]
  by (simp add: count_sentences_def strip_def is_space_def)

subsection \<open>Identifiers in responses\<close>

lemma stringify_id_is_str:
  "map_of (stringify_id env r) ''_id'' = Some v \<Longrightarrow> \<exists>s. v = VStr s"
  by (cases "map_of r ''_id''") (auto simp: stringify_id_def update_conv')

lemma stringify_ids_is_str:
  "stringify_ids env rs = Inr rs' \<Longrightarrow> r \<in> set rs' \<Longrightarrow> \<exists>s. map_of r ''_id'' = Some (VStr s)"
proof (induction rs arbitrary: rs')
  case Nil
  then show ?case by simp
next
  case (Cons a rs)
  then show ?case
    by (auto split: option.splits sum.splits simp: update_conv')
qed

lemma stringify_ids_length:
  "stringify_ids env rs = Inr rs' \<Longrightarrow> length rs' = length rs"
  by (induction rs arbitrary: rs') (auto split: option.splits sum.splits)

lemma stringify_ids_map:
  "list_all (\<lambda>r. map_of r ''_id'' \<noteq> None) rs \<Longrightarrow>
   stringify_ids env rs = Inr (map (stringify_id env) rs)"
  by (induction rs) (auto simp: stringify_id_def)

lemma if_db_None: "if_db env None body = Inr []"
  by (simp add: if_db_def truthy_def)

lemma if_db_true: "db_bool env d = Inr True \<Longrightarrow> if_db env (Some d) body = body"
  by (simp add: if_db_def truthy_def)

lemma if_db_raises: "db_bool env d = Inl e \<Longrightarrow> if_db env (Some d) body = Inl e"
  by (simp add: if_db_def truthy_def)

lemma if_db_Inr: "if_db env db body = Inr docs \<Longrightarrow> docs = [] \<or> body = Inr docs"
  by (auto simp: if_db_def split: sum.splits if_splits)

lemma cursor_limit_10_length: "map_sum id (cursor_limit 10) x = Inr rs \<Longrightarrow> length rs \<le> 10"
  by (cases x) (auto simp: cursor_limit_def)

lemma if_db_limit_10_length:
  "if_db env db (map_sum id (cursor_limit 10) x) = Inr rs \<Longrightarrow> length rs \<le> 10"
  using if_db_Inr cursor_limit_10_length by fastforce

lemma ai_search_results:
  assumes "ai_search env db payload = Inr resp"
  shows "\<exists>rs. stringify_ids env rs = Inr (results resp) \<and> length rs \<le> 10"
proof -
  let ?q = "AISearchRequest.query payload"
  let ?attempt = "if_db env db
      (map_sum id (cursor_limit 10) (db_find env db ''book'' (TextSearch ?q)))"
  let ?fallback = "if_db env db
      (map_sum id (cursor_limit 10) (db_find env db ''book'' (FieldRegex ''title'' ?q ''i'')))"
  let ?found = "case ?attempt of Inr rs \<Rightarrow> Inr rs | Inl _ \<Rightarrow> ?fallback"
  from assms obtain rs where found: "?found = Inr rs"
    and rs: "stringify_ids env rs = Inr (results resp)"
    by (auto simp: ai_search_def Let_def split: sum.splits)
  have "length rs \<le> 10"
  proof (cases ?attempt)
    case (Inl e)
    with found have "?fallback = Inr rs" by simp
    then show ?thesis by (rule if_db_limit_10_length)
  next
    case (Inr rs')
    with found have "?attempt = Inr rs" by simp
    then show ?thesis by (rule if_db_limit_10_length)
  qed
  with rs show ?thesis by blast
qed

text \<open>
  When the test \<^verbatim>\<open>if db\<close> raises on a database object, no query is issued: in
  \<^verbatim>\<open>ai_search\<close> the error is caught once and raised again by the test of the
  \<^verbatim>\<open>except\<close> branch, and the three list handlers raise it at once.
\<close>

lemma guard_raises:
  assumes "db_bool env d = Inl e"
  shows "ai_search env (Some d) payload = Inl e"
    and "ai_recommend env (Some d) rp = Inl e"
    and "list_invoices env (Some d) uid = Inl e"
    and "list_forum_posts env (Some d) tag = Inl e"
  using assms
  by (simp_all add: ai_search_def ai_recommend_def list_invoices_def list_forum_posts_def
      if_db_raises Let_def)

lemma get_documents_length:
  "get_documents db c f n = Inr docs \<Longrightarrow> length docs \<le> n"
  by (auto simp: get_documents_def split: option.splits if_splits)

lemma guarded_get_documents_length:
  "if_db env db (get_documents db c f n) = Inr docs \<Longrightarrow> length docs \<le> n"
  using if_db_Inr get_documents_length by fastforce

subsection \<open>Evaluating the handlers on the sample store\<close>

lemma demo_search:
  "ai_search demo_env (Some demo_db) \<lparr>AISearchRequest.query = ''dune''\<rparr> =
     Inr \<lparr>query = ''dune'',
          results = map (\<lambda>i. [(''_id'', VStr (replicate i CHR ''f'')), (''title'', VStr ''Dune''),
                               (''available'', VBool True)]) [1, 2, 3, 4, 5, 6, 7, 8, 9, 10]\<rparr>"
  by (simp add: ai_search_def if_db_def truthy_def db_find_def demo_env_def demo_db_def
      demo_find_def demo_str_def demo_book_def cursor_limit_def Let_def)

lemma demo_search_text:
  "ai_search demo_env_text (Some demo_db) \<lparr>AISearchRequest.query = ''dune''\<rparr> =
     Inr \<lparr>query = ''dune'',
          results = map (\<lambda>i. [(''_id'', VStr (replicate i CHR ''f'')), (''title'', VStr ''Dune''),
                               (''available'', VBool True)]) [1, 2, 3, 4, 5, 6, 7, 8, 9, 10]\<rparr>"
  by (simp add: ai_search_def if_db_def truthy_def db_find_def demo_env_text_def demo_env_def
      demo_db_def demo_str_def demo_book_def cursor_limit_def Let_def)

lemma demo_recommend:
  "ai_recommend demo_env (Some demo_db) \<lparr>RecommendRequest.user_id = ''u1''\<rparr> =
     Inr \<lparr>RecommendResponse.user_id = ''u1'',
          recommendations = map (\<lambda>i. [(''_id'', VStr (replicate i CHR ''f'')), (''title'', VStr ''Dune''),
                               (''available'', VBool True)]) [1, 2, 3, 4, 5]\<rparr>"
  by (simp add: ai_recommend_def get_documents_def matches_def if_db_def truthy_def stringify_id_def
      demo_env_def demo_db_def demo_str_def demo_book_def)

lemma demo_invoices:
  "list_invoices demo_env (Some demo_db) (Some ''u1'') =
     Inr \<lparr>invoices = [[(''_id'', VStr (replicate 20 CHR ''f'')), (''user_id'', VStr ''u1'')]]\<rparr>"
  by (simp add: list_invoices_def get_documents_def matches_def if_db_def truthy_def stringify_id_def
      demo_env_def demo_db_def demo_str_def)

lemma demo_posts:
  "list_forum_posts demo_env (Some demo_db) (Some ''sf'') =
     Inr \<lparr>posts = [[(''_id'', VStr (replicate 30 CHR ''f'')), (''tags'', VStr ''sf'')]]\<rparr>"
  by (simp add: list_forum_posts_def get_documents_def matches_def if_db_def truthy_def stringify_id_def
      demo_env_def demo_db_def demo_str_def)

lemma demo_get_documents:
  "get_documents (Some demo_db) ''book'' [] 2 = Inr [demo_book 1, demo_book 2]"
  by (simp add: get_documents_def matches_def demo_db_def)

lemma demo_db_bool: "db_bool demo_env demo_db = Inr True \<and> db_bool demo_env_text demo_db = Inr True"
  by (simp add: demo_env_def demo_env_text_def)

lemma demo_find_text:
  "coll_find demo_env demo_db ''book'' (TextSearch ''dune'')
     = Inl (OperationFailure ''text index required for $text query'')"
  by (simp add: demo_env_def demo_find_def)

lemma demo_find_regex:
  "coll_find demo_env demo_db ''book'' (FieldRegex ''title'' ''dune'' ''i'')
     = Inr (map demo_book [1, 2, 3, 4, 5, 6, 7, 8, 9, 10, 11])"
  by (simp add: demo_env_def demo_find_def demo_db_def)

lemma demo_find_text_ok:
  "coll_find demo_env_text demo_db ''book'' (TextSearch ''dune'')
     = Inr (map demo_book [1, 2, 3, 4, 5, 6, 7, 8, 9, 10, 11])"
  by (simp add: demo_env_text_def demo_env_def demo_db_def)

lemma demo_time_in_range:
  "reachable demo_db \<and> datetime_min \<le> utcnow demo_env + timedelta_days 30
   \<and> utcnow demo_env + timedelta_days 30 \<le> datetime_max
   \<and> utcnow demo_env + timedelta_days 30 = 1702592000000000"
  by (simp add: demo_env_def demo_db_def datetime_min_def datetime_max_def timedelta_days_def)

lemma demo_create_subscription:
  "\<exists>db'. create_subscription demo_env (Some demo_db) demo_subscription =
      Inr ([(''id'', VStr (replicate 40 CHR ''f'')), (''user_id'', VStr ''u1''),
            (''plan'', VStr ''pro''), (''status'', VStr ''active''),
            (''renews_at'', VDateTime 1702592000000000)], db')
    \<and> colls db' ''subscription'' =
        [[(''user_id'', VStr ''u1''), (''plan'', VStr ''pro''), (''status'', VStr ''active''),
          (''renews_at'', VDateTime 1702592000000000), (''_id'', VObjectId 40)]]
    \<and> colls db' ''forumpost'' = colls demo_db ''forumpost''"
  by (simp add: create_subscription_def create_document_def datetime_add_def datetime_min_def
      datetime_max_def timedelta_days_def dict_merge_def demo_env_def demo_db_def demo_str_def
      demo_subscription_def Let_def)

lemma demo_create_forum_post:
  "\<exists>db'. create_forum_post demo_env (Some demo_db) demo_post =
      Inr ([(''id'', VStr (replicate 40 CHR ''f'')), (''user_id'', VStr ''u1''),
            (''title'', VStr ''Hello''), (''content'', VStr ''First post''),
            (''tags'', VList [VStr ''sf'', VStr ''news''])], db')
    \<and> colls db' ''forumpost'' =
        [[(''_id'', VObjectId 30), (''tags'', VStr ''sf'')],
         [(''user_id'', VStr ''u1''), (''title'', VStr ''Hello''),
          (''content'', VStr ''First post''), (''tags'', VList [VStr ''sf'', VStr ''news'']),
          (''_id'', VObjectId 40)]]
    \<and> colls db' ''subscription'' = []"
  by (simp add: create_forum_post_def create_document_def forum_post_dict_def dict_merge_def
      demo_env_def demo_db_def demo_str_def demo_post_def Let_def)

subsection \<open>The search fallback\<close>

text \<open>
  C1. For every AI search request on a database object whose truth test \<^verbatim>\<open>if db\<close>
  holds: if the full-text query on the book collection raises, whatever the error,
  ai_search does not fail with it but evaluates the case-insensitive regex query on the
  title, and its outcome is that of the regex query treated exactly as the primary path
  treats the result of the text query: at most ten records, identifiers turned into
  strings, wrapped into an object holding the original query string and the results. In
  particular, when the regex query returns records (each with its identifier), ai_search
  succeeds with that object. Only an error of the fallback query itself propagates.
\<close>

theorem ai_search_fallback:
  "(\<forall>e. db_bool env d = Inr True
        \<and> coll_find env d ''book'' (TextSearch (AISearchRequest.query payload)) = Inl e \<longrightarrow>
      ai_search env (Some d) payload =
        (case coll_find env d ''book'' (FieldRegex ''title'' (AISearchRequest.query payload) ''i'') of
           Inl e' \<Rightarrow> Inl e'
         | Inr docs \<Rightarrow>
             (case stringify_ids env (cursor_limit 10 docs) of
                Inl e' \<Rightarrow> Inl e'
              | Inr rs \<Rightarrow> Inr \<lparr>query = AISearchRequest.query payload, results = rs\<rparr>)))
   \<and> (\<forall>docs. db_bool env d = Inr True
        \<and> coll_find env d ''book'' (TextSearch (AISearchRequest.query payload)) = Inr docs \<longrightarrow>
      ai_search env (Some d) payload =
        (case stringify_ids env (cursor_limit 10 docs) of
           Inl e' \<Rightarrow> Inl e'
         | Inr rs \<Rightarrow> Inr \<lparr>query = AISearchRequest.query payload, results = rs\<rparr>))
   \<and> (\<forall>e docs.
        db_bool env d = Inr True
        \<and> coll_find env d ''book'' (TextSearch (AISearchRequest.query payload)) = Inl e
        \<and> coll_find env d ''book'' (FieldRegex ''title'' (AISearchRequest.query payload) ''i'')
            = Inr docs
        \<and> list_all (\<lambda>r. map_of r ''_id'' \<noteq> None) (take 10 docs) \<longrightarrow>
      ai_search env (Some d) payload =
        Inr \<lparr>query = AISearchRequest.query payload,
             results = map (stringify_id env) (take 10 docs)\<rparr>)"
proof (intro conjI allI impI)
  fix e
  assume "db_bool env d = Inr True
        \<and> coll_find env d ''book'' (TextSearch (AISearchRequest.query payload)) = Inl e"
  then show "ai_search env (Some d) payload =
        (case coll_find env d ''book'' (FieldRegex ''title'' (AISearchRequest.query payload) ''i'') of
           Inl e' \<Rightarrow> Inl e'
         | Inr docs \<Rightarrow>
             (case stringify_ids env (cursor_limit 10 docs) of
                Inl e' \<Rightarrow> Inl e'
              | Inr rs \<Rightarrow> Inr \<lparr>query = AISearchRequest.query payload, results = rs\<rparr>))"
    by (simp add: ai_search_def if_db_true db_find_def Let_def split: sum.splits)
next
  fix docs
  assume "db_bool env d = Inr True
        \<and> coll_find env d ''book'' (TextSearch (AISearchRequest.query payload)) = Inr docs"
  then show "ai_search env (Some d) payload =
        (case stringify_ids env (cursor_limit 10 docs) of
           Inl e' \<Rightarrow> Inl e'
         | Inr rs \<Rightarrow> Inr \<lparr>query = AISearchRequest.query payload, results = rs\<rparr>)"
    by (simp add: ai_search_def if_db_true db_find_def Let_def split: sum.splits)
next
  fix e docs
  assume h: "db_bool env d = Inr True
        \<and> coll_find env d ''book'' (TextSearch (AISearchRequest.query payload)) = Inl e
        \<and> coll_find env d ''book'' (FieldRegex ''title'' (AISearchRequest.query payload) ''i'')
            = Inr docs
        \<and> list_all (\<lambda>r. map_of r ''_id'' \<noteq> None) (take 10 docs)"
  then have "stringify_ids env (take 10 docs) = Inr (map (stringify_id env) (take 10 docs))"
    by (simp add: stringify_ids_map)
  with h show "ai_search env (Some d) payload =
        Inr \<lparr>query = AISearchRequest.query payload,
             results = map (stringify_id env) (take 10 docs)\<rparr>"
    by (simp add: ai_search_def if_db_true db_find_def Let_def cursor_limit_def)
qed

theorem ai_search_fallback_witness:
  "db_bool demo_env demo_db = Inr True
   \<and> coll_find demo_env demo_db ''book'' (TextSearch ''dune'')
     = Inl (OperationFailure ''text index required for $text query'')
   \<and> coll_find demo_env demo_db ''book'' (FieldRegex ''title'' ''dune'' ''i'')
     = Inr (map demo_book [1, 2, 3, 4, 5, 6, 7, 8, 9, 10, 11])
   \<and> list_all (\<lambda>r. map_of r ''_id'' \<noteq> None)
        (take 10 (map demo_book [1, 2, 3, 4, 5, 6, 7, 8, 9, 10, 11]))
   \<and> ai_search demo_env (Some demo_db) \<lparr>AISearchRequest.query = ''dune''\<rparr> =
       Inr \<lparr>query = ''dune'',
            results = map (stringify_id demo_env)
                        (take 10 (map demo_book [1, 2, 3, 4, 5, 6, 7, 8, 9, 10, 11]))\<rparr>
   \<and> db_bool demo_env_text demo_db = Inr True
   \<and> coll_find demo_env_text demo_db ''book'' (TextSearch ''dune'')
     = Inr (map demo_book [1, 2, 3, 4, 5, 6, 7, 8, 9, 10, 11])
   \<and> ai_search demo_env_text (Some demo_db) \<lparr>AISearchRequest.query = ''dune''\<rparr> =
       ai_search demo_env (Some demo_db) \<lparr>AISearchRequest.query = ''dune''\<rparr>"
  using ai_search_fallback [of demo_env demo_db "\<lparr>AISearchRequest.query = ''dune''\<rparr>"]
    ai_search_fallback [of demo_env_text demo_db "\<lparr>AISearchRequest.query = ''dune''\<rparr>"]
    demo_db_bool demo_find_text demo_find_regex demo_find_text_ok demo_search demo_search_text
  by (simp add: demo_book_def)

subsection \<open>Identifier normalization\<close>

text \<open>
  C2. In every response of the listing endpoints ai_search, ai_recommend, list_invoices
  and list_forum_posts, the \<^verbatim>\<open>_id\<close> of a returned record is a plain string, never a
  store-native identifier: every record of ai_search carries a string \<^verbatim>\<open>_id\<close>, and a
  record of the other three that has an \<^verbatim>\<open>_id\<close> has a string there.
\<close>

theorem listed_ids_are_strings:
  "(\<forall>resp r. ai_search env db sp = Inr resp \<and> r \<in> set (results resp)
       \<longrightarrow> (\<exists>s. map_of r ''_id'' = Some (VStr s)))
   \<and> (\<forall>resp r v. ai_recommend env db rp = Inr resp \<and> r \<in> set (recommendations resp)
          \<and> map_of r ''_id'' = Some v \<longrightarrow> (\<exists>s. v = VStr s))
   \<and> (\<forall>resp r v. list_invoices env db uid = Inr resp \<and> r \<in> set (invoices resp)
          \<and> map_of r ''_id'' = Some v \<longrightarrow> (\<exists>s. v = VStr s))
   \<and> (\<forall>resp r v. list_forum_posts env db tag = Inr resp \<and> r \<in> set (posts resp)
          \<and> map_of r ''_id'' = Some v \<longrightarrow> (\<exists>s. v = VStr s))"
proof (intro conjI allI impI)
  fix resp r
  assume "ai_search env db sp = Inr resp \<and> r \<in> set (results resp)"
  then show "\<exists>s. map_of r ''_id'' = Some (VStr s)"
    using ai_search_results stringify_ids_is_str by blast
next
  fix resp r v
  assume "ai_recommend env db rp = Inr resp \<and> r \<in> set (recommendations resp)
          \<and> map_of r ''_id'' = Some v"
  then show "\<exists>s. v = VStr s"
    by (auto simp: ai_recommend_def split: sum.splits dest: stringify_id_is_str)
next
  fix resp r v
  assume "list_invoices env db uid = Inr resp \<and> r \<in> set (invoices resp)
          \<and> map_of r ''_id'' = Some v"
  then show "\<exists>s. v = VStr s"
    by (auto simp: list_invoices_def Let_def split: sum.splits dest: stringify_id_is_str)
next
  fix resp r v
  assume "list_forum_posts env db tag = Inr resp \<and> r \<in> set (posts resp)
          \<and> map_of r ''_id'' = Some v"
  then show "\<exists>s. v = VStr s"
    by (auto simp: list_forum_posts_def Let_def split: sum.splits dest: stringify_id_is_str)
qed

theorem listed_ids_are_strings_witness:
  "ai_search demo_env (Some demo_db) \<lparr>AISearchRequest.query = ''dune''\<rparr> =
     Inr \<lparr>query = ''dune'',
          results = map (\<lambda>i. [(''_id'', VStr (replicate i CHR ''f'')), (''title'', VStr ''Dune''),
                               (''available'', VBool True)]) [1, 2, 3, 4, 5, 6, 7, 8, 9, 10]\<rparr>
   \<and> ai_recommend demo_env (Some demo_db) \<lparr>RecommendRequest.user_id = ''u1''\<rparr> =
     Inr \<lparr>RecommendResponse.user_id = ''u1'',
          recommendations = map (\<lambda>i. [(''_id'', VStr (replicate i CHR ''f'')), (''title'', VStr ''Dune''),
                               (''available'', VBool True)]) [1, 2, 3, 4, 5]\<rparr>
   \<and> list_invoices demo_env (Some demo_db) (Some ''u1'') =
     Inr \<lparr>invoices = [[(''_id'', VStr (replicate 20 CHR ''f'')), (''user_id'', VStr ''u1'')]]\<rparr>
   \<and> list_forum_posts demo_env (Some demo_db) (Some ''sf'') =
     Inr \<lparr>posts = [[(''_id'', VStr (replicate 30 CHR ''f'')), (''tags'', VStr ''sf'')]]\<rparr>
   \<and> (\<exists>s. map_of [(''_id'', VStr (replicate 20 CHR ''f'')), (''user_id'', VStr ''u1'')] ''_id''
            = Some (VStr s))"
  using listed_ids_are_strings [of demo_env "Some demo_db"
      "\<lparr>AISearchRequest.query = ''dune''\<rparr>" "\<lparr>RecommendRequest.user_id = ''u1''\<rparr>"
      "Some ''u1''" "Some ''sf''"]
    demo_search demo_recommend demo_invoices demo_posts
  by simp

subsection \<open>Limits\<close>

text \<open>
  C3. For every store, collection, filter and limit N >= 0, get_documents returns at most
  N records; ai_search returns at most 10 results, ai_recommend at most 5
  recommendations and list_invoices at most 50 invoices.
\<close>

theorem limit_bounds:
  "(\<forall>docs. get_documents db c f n = Inr docs \<longrightarrow> length docs \<le> n)
   \<and> (\<forall>resp. ai_search env db sp = Inr resp \<longrightarrow> length (results resp) \<le> 10)
   \<and> (\<forall>resp. ai_recommend env db rp = Inr resp \<longrightarrow> length (recommendations resp) \<le> 5)
   \<and> (\<forall>resp. list_invoices env db uid = Inr resp \<longrightarrow> length (invoices resp) \<le> 50)"
proof (intro conjI allI impI)
  fix docs assume "get_documents db c f n = Inr docs"
  then show "length docs \<le> n" by (rule get_documents_length)
next
  fix resp assume "ai_search env db sp = Inr resp"
  then obtain rs where "stringify_ids env rs = Inr (results resp)" "length rs \<le> 10"
    using ai_search_results by blast
  then show "length (results resp) \<le> 10"
    using stringify_ids_length by fastforce
next
  fix resp assume "ai_recommend env db rp = Inr resp"
  then show "length (recommendations resp) \<le> 5"
    by (auto simp: ai_recommend_def split: sum.splits dest: guarded_get_documents_length)
next
  fix resp assume "list_invoices env db uid = Inr resp"
  then show "length (invoices resp) \<le> 50"
    by (auto simp: list_invoices_def Let_def split: sum.splits
             dest: guarded_get_documents_length)
qed

theorem limit_bounds_witness:
  "get_documents (Some demo_db) ''book'' [] 2 = Inr [demo_book 1, demo_book 2]
   \<and> length [demo_book 1, demo_book 2] \<le> 2
   \<and> (\<exists>resp. ai_search demo_env (Some demo_db) \<lparr>AISearchRequest.query = ''dune''\<rparr> = Inr resp
         \<and> length (results resp) = 10)
   \<and> (\<exists>resp. ai_recommend demo_env (Some demo_db) \<lparr>RecommendRequest.user_id = ''u1''\<rparr> = Inr resp
         \<and> length (recommendations resp) = 5)
   \<and> (\<exists>resp. list_invoices demo_env (Some demo_db) (Some ''u1'') = Inr resp
         \<and> length (invoices resp) = 1 \<and> length (invoices resp) \<le> 50)"
  using limit_bounds [of "Some demo_db" "''book''" "[]" 2 demo_env
      "\<lparr>AISearchRequest.query = ''dune''\<rparr>" "\<lparr>RecommendRequest.user_id = ''u1''\<rparr>" "Some ''u1''"]
    demo_get_documents demo_search demo_recommend demo_invoices
  by simp

subsection \<open>No database\<close>

text \<open>
  C6. When the database handle is absent (db is None), ai_recommend, list_invoices and
  list_forum_posts do not raise: each returns its normal response with an empty sequence
  of records.
\<close>

theorem handlers_without_database:
  "ai_recommend env None payload =
     Inr \<lparr>RecommendResponse.user_id = RecommendRequest.user_id payload, recommendations = []\<rparr>
   \<and> list_invoices env None uid = Inr \<lparr>invoices = []\<rparr>
   \<and> list_forum_posts env None tag = Inr \<lparr>posts = []\<rparr>"
  by (simp add: ai_recommend_def list_invoices_def list_forum_posts_def if_db_None)

subsection \<open>Subscriptions\<close>

lemma create_document_Inr:
  "create_document env db c data = Inr (ident, db') \<Longrightarrow>
   \<exists>d. db = Some d \<and> reachable d \<and> c \<noteq> []
       \<and> ident = py_str env (VObjectId (next_id d))
       \<and> db' = d\<lparr>colls := (colls d)(c := colls d c @ [AList.update ''_id'' (VObjectId (next_id d)) data]),
                 next_id := Suc (next_id d)\<rparr>"
  by (auto simp: create_document_def Let_def split: if_splits option.splits)

text \<open>
  C7. For every subscription request, create_subscription fills in the defaults before
  persisting. Whenever it returns, the record appended to the subscription collection has
  the user_id and plan of the request, status "active" and renews_at equal to the time of
  the call plus 30 days, and the response holds the new identifier (as a string) followed
  by exactly these four stored fields. It does return whenever the store is reachable and
  the renewal date is a representable datetime.
\<close>

theorem create_subscription_defaults:
  "(reachable d \<and> datetime_min \<le> utcnow env + timedelta_days 30
      \<and> utcnow env + timedelta_days 30 \<le> datetime_max
      \<longrightarrow> (\<exists>resp db'. create_subscription env (Some d) payload = Inr (resp, db')))
   \<and> (\<forall>resp db'. create_subscription env db payload = Inr (resp, db') \<longrightarrow>
        (\<exists>d0. db = Some d0
           \<and> colls db' ''subscription'' = colls d0 ''subscription'' @
               [[(''user_id'', VStr (SubscriptionRequest.user_id payload)),
                 (''plan'', VStr (plan payload)),
                 (''status'', VStr ''active''),
                 (''renews_at'', VDateTime (utcnow env + timedelta_days 30)),
                 (''_id'', VObjectId (next_id d0))]]
           \<and> resp =
               [(''id'', VStr (py_str env (VObjectId (next_id d0)))),
                (''user_id'', VStr (SubscriptionRequest.user_id payload)),
                (''plan'', VStr (plan payload)),
                (''status'', VStr ''active''),
                (''renews_at'', VDateTime (utcnow env + timedelta_days 30))]))"
proof (intro conjI allI impI)
  assume "reachable d \<and> datetime_min \<le> utcnow env + timedelta_days 30
      \<and> utcnow env + timedelta_days 30 \<le> datetime_max"
  then show "\<exists>resp db'. create_subscription env (Some d) payload = Inr (resp, db')"
    by (simp add: create_subscription_def datetime_add_def create_document_def Let_def)
next
  fix resp db'
  assume h: "create_subscription env db payload = Inr (resp, db')"
  let ?t = "utcnow env + timedelta_days 30"
  let ?sub = "[(''user_id'', VStr (SubscriptionRequest.user_id payload)),
               (''plan'', VStr (plan payload)),
               (''status'', VStr ''active''),
               (''renews_at'', VDateTime ?t)]"
  from h have add: "datetime_add (utcnow env) (timedelta_days 30) = Inr ?t"
    by (auto simp: create_subscription_def datetime_add_def split: sum.splits if_splits)
  with h obtain sub_id where
    cd: "create_document env db ''subscription'' ?sub = Inr (sub_id, db')"
    and r: "resp = dict_merge [(''id'', VStr sub_id)] ?sub"
    by (auto simp: create_subscription_def Let_def split: sum.splits)
  from create_document_Inr [OF cd] obtain d0 where
    d0: "db = Some d0" "sub_id = py_str env (VObjectId (next_id d0))"
      "db' = d0\<lparr>colls := (colls d0)(''subscription'' := colls d0 ''subscription'' @
                 [AList.update ''_id'' (VObjectId (next_id d0)) ?sub]),
               next_id := Suc (next_id d0)\<rparr>"
    by blast
  have "AList.update ''_id'' (VObjectId (next_id d0)) ?sub
          = ?sub @ [(''_id'', VObjectId (next_id d0))]"
    by simp
  moreover have "dict_merge [(''id'', VStr sub_id)] ?sub = (''id'', VStr sub_id) # ?sub"
    by (simp add: dict_merge_def)
  ultimately show "\<exists>d0. db = Some d0
           \<and> colls db' ''subscription'' = colls d0 ''subscription'' @
               [[(''user_id'', VStr (SubscriptionRequest.user_id payload)),
                 (''plan'', VStr (plan payload)),
                 (''status'', VStr ''active''),
                 (''renews_at'', VDateTime (utcnow env + timedelta_days 30)),
                 (''_id'', VObjectId (next_id d0))]]
           \<and> resp =
               [(''id'', VStr (py_str env (VObjectId (next_id d0)))),
                (''user_id'', VStr (SubscriptionRequest.user_id payload)),
                (''plan'', VStr (plan payload)),
                (''status'', VStr ''active''),
                (''renews_at'', VDateTime (utcnow env + timedelta_days 30))]"
    using d0 r by simp
qed

theorem create_subscription_defaults_witness:
  "reachable demo_db \<and> datetime_min \<le> utcnow demo_env + timedelta_days 30
   \<and> utcnow demo_env + timedelta_days 30 \<le> datetime_max
   \<and> utcnow demo_env + timedelta_days 30 = 1702592000000000
   \<and> (\<exists>db'. create_subscription demo_env (Some demo_db) demo_subscription =
        Inr ([(''id'', VStr (replicate 40 CHR ''f'')), (''user_id'', VStr ''u1''),
              (''plan'', VStr ''pro''), (''status'', VStr ''active''),
              (''renews_at'', VDateTime 1702592000000000)], db')
      \<and> colls db' ''subscription'' =
          [[(''user_id'', VStr ''u1''), (''plan'', VStr ''pro''), (''status'', VStr ''active''),
            (''renews_at'', VDateTime 1702592000000000), (''_id'', VObjectId 40)]]
      \<and> colls db' ''forumpost'' = colls demo_db ''forumpost'')"
  using create_subscription_defaults [of demo_db demo_env demo_subscription "Some demo_db"]
    demo_create_subscription demo_time_in_range
  by simp

subsection \<open>Collection names\<close>

lemma collection_name_ForumPost: "collection_name ''ForumPost'' = ''forumpost''"
  by code_simp

lemma collection_name_Subscription: "collection_name ''Subscription'' = ''subscription''"
  by code_simp

lemma collection_name_Book: "collection_name ''Book'' = ''book''"
  by code_simp

lemma collection_name_Invoice: "collection_name ''Invoice'' = ''invoice''"
  by code_simp

lemmas collection_names =
  collection_name_ForumPost collection_name_Subscription collection_name_Book
  collection_name_Invoice

text \<open>
  C8. Every handler reads from or writes to the collection named by the lowercased name
  of its schema class: a forum post is appended to \<open>collection_name ''ForumPost''\<close>
  = "forumpost" and a subscription to \<open>collection_name ''Subscription''\<close> =
  "subscription", every other collection staying as it was; on a database object whose
  truth test \<^verbatim>\<open>if db\<close> holds, the recommendations and the search results are drawn
  from \<open>collection_name ''Book''\<close> = "book", the invoices from "invoice" and the
  listed posts from "forumpost".
\<close>

theorem collections_follow_schema_names:
  "map collection_name [''ForumPost'', ''Subscription'', ''Book'', ''Invoice'']
     = [''forumpost'', ''subscription'', ''book'', ''invoice'']
   \<and> (\<forall>resp db'. create_forum_post env db fp = Inr (resp, db') \<longrightarrow>
        (\<exists>d0. db = Some d0 \<and>
           colls db' = (colls d0)(collection_name ''ForumPost'' :=
              colls d0 (collection_name ''ForumPost'')
              @ [forum_post_dict fp @ [(''_id'', VObjectId (next_id d0))]])))
   \<and> (\<forall>resp db'. create_subscription env db sp = Inr (resp, db') \<longrightarrow>
        (\<exists>d0 stored. db = Some d0 \<and>
           colls db' = (colls d0)(collection_name ''Subscription'' :=
              colls d0 (collection_name ''Subscription'') @ [stored])))
   \<and> (reachable d \<and> db_bool env d = Inr True \<longrightarrow>
        ai_recommend env (Some d) rp =
          Inr \<lparr>RecommendResponse.user_id = RecommendRequest.user_id rp,
               recommendations = map (stringify_id env)
                 (take 5 (filter (matches [(''available'', VBool True)])
                    (colls d (collection_name ''Book''))))\<rparr>)
   \<and> (reachable d \<and> db_bool env d = Inr True \<longrightarrow>
        list_invoices env (Some d) uid =
          Inr \<lparr>invoices = map (stringify_id env)
                 (take 50 (filter
                    (matches (case uid of
                                Some u \<Rightarrow> if u \<noteq> [] then [(''user_id'', VStr u)] else []
                              | None \<Rightarrow> []))
                    (colls d (collection_name ''Invoice''))))\<rparr>)
   \<and> (reachable d \<and> db_bool env d = Inr True \<longrightarrow>
        list_forum_posts env (Some d) tag =
          Inr \<lparr>posts = map (stringify_id env)
                 (take 50 (filter
                    (matches (case tag of
                                Some t \<Rightarrow> if t \<noteq> [] then [(''tags'', VStr t)] else []
                              | None \<Rightarrow> []))
                    (colls d (collection_name ''ForumPost''))))\<rparr>)
   \<and> (db_bool env d = Inr True \<longrightarrow>
        ai_search env (Some d) q =
        (case (case coll_find env d (collection_name ''Book'')
                      (TextSearch (AISearchRequest.query q)) of
                 Inr docs \<Rightarrow> Inr docs
               | Inl _ \<Rightarrow> coll_find env d (collection_name ''Book'')
                            (FieldRegex ''title'' (AISearchRequest.query q) ''i'')) of
           Inl e \<Rightarrow> Inl e
         | Inr docs \<Rightarrow>
             (case stringify_ids env (cursor_limit 10 docs) of
                Inl e \<Rightarrow> Inl e
              | Inr rs \<Rightarrow> Inr \<lparr>query = AISearchRequest.query q, results = rs\<rparr>)))"
proof (intro conjI allI impI)
  show "map collection_name [''ForumPost'', ''Subscription'', ''Book'', ''Invoice'']
     = [''forumpost'', ''subscription'', ''book'', ''invoice'']"
    by (simp add: collection_names)
next
  fix resp db'
  assume "create_forum_post env db fp = Inr (resp, db')"
  then obtain post_id where
    "create_document env db ''forumpost'' (forum_post_dict fp) = Inr (post_id, db')"
    by (auto simp: create_forum_post_def split: sum.splits)
  from create_document_Inr [OF this] obtain d0 where
    "db = Some d0"
    "db' = d0\<lparr>colls := (colls d0)(''forumpost'' := colls d0 ''forumpost'' @
               [AList.update ''_id'' (VObjectId (next_id d0)) (forum_post_dict fp)]),
             next_id := Suc (next_id d0)\<rparr>"
    by blast
  moreover have "AList.update ''_id'' (VObjectId (next_id d0)) (forum_post_dict fp)
                   = forum_post_dict fp @ [(''_id'', VObjectId (next_id d0))]"
    by (simp add: forum_post_dict_def)
  ultimately show "\<exists>d0. db = Some d0 \<and>
           colls db' = (colls d0)(collection_name ''ForumPost'' :=
              colls d0 (collection_name ''ForumPost'')
              @ [forum_post_dict fp @ [(''_id'', VObjectId (next_id d0))]])"
    by (simp add: collection_names)
next
  fix resp db'
  assume "create_subscription env db sp = Inr (resp, db')"
  then obtain sub_id sub where
    "create_document env db ''subscription'' sub = Inr (sub_id, db')"
    by (auto simp: create_subscription_def Let_def split: sum.splits)
  from create_document_Inr [OF this] obtain d0 where
    "db = Some d0"
    "db' = d0\<lparr>colls := (colls d0)(''subscription'' := colls d0 ''subscription'' @
               [AList.update ''_id'' (VObjectId (next_id d0)) sub]),
             next_id := Suc (next_id d0)\<rparr>"
    by blast
  then show "\<exists>d0 stored. db = Some d0 \<and>
           colls db' = (colls d0)(collection_name ''Subscription'' :=
              colls d0 (collection_name ''Subscription'') @ [stored])"
    by (auto simp: collection_names)
next
  assume "reachable d \<and> db_bool env d = Inr True"
  then show "ai_recommend env (Some d) rp =
          Inr \<lparr>RecommendResponse.user_id = RecommendRequest.user_id rp,
               recommendations = map (stringify_id env)
                 (take 5 (filter (matches [(''available'', VBool True)])
                    (colls d (collection_name ''Book''))))\<rparr>"
    by (simp add: ai_recommend_def get_documents_def if_db_true collection_names)
next
  assume "reachable d \<and> db_bool env d = Inr True"
  then show "list_invoices env (Some d) uid =
          Inr \<lparr>invoices = map (stringify_id env)
                 (take 50 (filter
                    (matches (case uid of
                                Some u \<Rightarrow> if u \<noteq> [] then [(''user_id'', VStr u)] else []
                              | None \<Rightarrow> []))
                    (colls d (collection_name ''Invoice''))))\<rparr>"
    by (simp add: list_invoices_def get_documents_def if_db_true collection_names Let_def)
next
  assume "reachable d \<and> db_bool env d = Inr True"
  then show "list_forum_posts env (Some d) tag =
          Inr \<lparr>posts = map (stringify_id env)
                 (take 50 (filter
                    (matches (case tag of
                                Some t \<Rightarrow> if t \<noteq> [] then [(''tags'', VStr t)] else []
                              | None \<Rightarrow> []))
                    (colls d (collection_name ''ForumPost''))))\<rparr>"
    by (simp add: list_forum_posts_def get_documents_def if_db_true collection_names Let_def)
next
  assume "db_bool env d = Inr True"
  then show "ai_search env (Some d) q =
        (case (case coll_find env d (collection_name ''Book'')
                      (TextSearch (AISearchRequest.query q)) of
                 Inr docs \<Rightarrow> Inr docs
               | Inl _ \<Rightarrow> coll_find env d (collection_name ''Book'')
                            (FieldRegex ''title'' (AISearchRequest.query q) ''i'')) of
           Inl e \<Rightarrow> Inl e
         | Inr docs \<Rightarrow>
             (case stringify_ids env (cursor_limit 10 docs) of
                Inl e \<Rightarrow> Inl e
              | Inr rs \<Rightarrow> Inr \<lparr>query = AISearchRequest.query q, results = rs\<rparr>))"
    by (cases "coll_find env d ''book'' (TextSearch (AISearchRequest.query q))";
        cases "coll_find env d ''book'' (FieldRegex ''title'' (AISearchRequest.query q) ''i'')")
       (simp_all add: ai_search_def if_db_true db_find_def Let_def collection_names)
qed

theorem collections_follow_schema_names_witness:
  "reachable demo_db
   \<and> db_bool demo_env demo_db = Inr True
   \<and> (\<exists>db'. create_forum_post demo_env (Some demo_db) demo_post =
      Inr ([(''id'', VStr (replicate 40 CHR ''f'')), (''user_id'', VStr ''u1''),
            (''title'', VStr ''Hello''), (''content'', VStr ''First post''),
            (''tags'', VList [VStr ''sf'', VStr ''news''])], db')
    \<and> colls db' ''forumpost'' =
        [[(''_id'', VObjectId 30), (''tags'', VStr ''sf'')],
         [(''user_id'', VStr ''u1''), (''title'', VStr ''Hello''),
          (''content'', VStr ''First post''), (''tags'', VList [VStr ''sf'', VStr ''news'']),
          (''_id'', VObjectId 40)]]
    \<and> colls db' ''subscription'' = [])
   \<and> (\<exists>db'. create_subscription demo_env (Some demo_db) demo_subscription =
        Inr ([(''id'', VStr (replicate 40 CHR ''f'')), (''user_id'', VStr ''u1''),
              (''plan'', VStr ''pro''), (''status'', VStr ''active''),
              (''renews_at'', VDateTime 1702592000000000)], db')
      \<and> colls db' ''subscription'' =
          [[(''user_id'', VStr ''u1''), (''plan'', VStr ''pro''), (''status'', VStr ''active''),
            (''renews_at'', VDateTime 1702592000000000), (''_id'', VObjectId 40)]]
      \<and> colls db' ''forumpost'' = colls demo_db ''forumpost'')
   \<and> list_forum_posts demo_env (Some demo_db) (Some ''sf'') =
       Inr \<lparr>posts = [[(''_id'', VStr (replicate 30 CHR ''f'')), (''tags'', VStr ''sf'')]]\<rparr>"
  using collections_follow_schema_names [of demo_env "Some demo_db" demo_post
      demo_subscription demo_db "\<lparr>RecommendRequest.user_id = ''u1''\<rparr>" "Some ''u1''" "Some ''sf''"
      "\<lparr>AISearchRequest.query = ''dune''\<rparr>"]
    demo_create_forum_post demo_create_subscription demo_posts demo_time_in_range demo_db_bool
  by simp

end
